theory Spec2Isabelle
  imports Complex_Main "HOL-Library.Sublist"
begin

section \<open>The notebook \<open>2-a-pde-model.ipynb\<close>: linear diffusion on a unit sphere\<close>

text \<open>
  The repository file is a Jupyter notebook of nine code cells. It is a straight-line
  script over three libraries (pybamm, numpy, matplotlib). The development below embeds
  the code cells as one state-passing program: Python names become bound variables, the
  one mutable object the script owns (the model) lives in an explicit store, every
  library call is logged in a trace, and an exception is a value that ends the run.
\<close>

subsection \<open>Values\<close>

text \<open>
  Modelled from the spec: the expression classes of pybamm (\<open>Variable\<close>,
  \<open>SpatialVariable\<close>, \<open>Scalar\<close>, the operators built by \<open>grad\<close>, \<open>div\<close> and unary
  minus) are not in the source tree. The spec calls them an expression graph of symbolic
  scalars, variables and operators, so each constructor only builds a node.
  \<open>Variable name domain\<close> keeps the domain as the string the notebook passes;
  \<open>SpatialVariable name domain coord_sys\<close> keeps the list it passes.
\<close>

datatype symbol =
    Variable string string
  | SpatialVariable string "string list" string
  | Scalar int
  | Gradient symbol
  | Divergence symbol
  | Negate symbol

text \<open>
  Python values the notebook handles. A dict is an association list in insertion order,
  \<open>PObj a\<close> is a reference to the object at address \<open>a\<close> of the store, \<open>PClass\<close> is a
  class object passed as an argument, \<open>POpaque n\<close> is an object owned by a library.
\<close>

datatype pyval =
    PNone
  | PInt int
  | PFloat rat
  | PStr string
  | PSym symbol
  | PTuple "pyval list"
  | PList "pyval list"
  | PDict "(pyval \<times> pyval) list"
  | PObj nat
  | PClass string
  | POpaque nat

datatype exn = PyExn string

datatype library = Pybamm | Numpy | Matplotlib

text \<open>
  What a statement asks of a library: importing it, calling one of its functions or
  classes, calling a method of one of its objects (the receiver is the first argument),
  reading or binding an attribute of one of its objects. \<open>Unpack\<close> is the destructuring
  of a returned sequence into two names.
\<close>

datatype callee =
    Import library
  | Fn library string
  | Method library string
  | GetAttr library string
  | SetAttr library string
  | Unpack

type_synonym obj = "(string \<times> pyval) list"

record event =
  callee :: callee
  args :: "pyval list"
  kwargs :: "(string \<times> pyval) list"
  seen :: "obj list"
  result :: "exn + pyval"
  left :: "obj list"

record 'w state =
  heap :: "obj list"
  world :: 'w
  trace :: "event list"

datatype ('a, 'w) outcome = Done 'a "'w state" | Raised exn "'w state"

text \<open>
  The libraries are a parameter: given the callee, the positional and keyword arguments,
  the contents of the store object handed over (if any) and the libraries' own state,
  a call either raises or returns a value, new contents for that object and a new
  library state.
\<close>

type_synonym 'w libs =
  "callee \<Rightarrow> pyval list \<Rightarrow> (string \<times> pyval) list \<Rightarrow> obj list \<Rightarrow> 'w
     \<Rightarrow> exn + (pyval \<times> obj list \<times> 'w)"

subsection \<open>Sequencing, calls and the store\<close>

definition init :: "'w \<Rightarrow> 'w state" where
  "init w = \<lparr>heap = [], world = w, trace = []\<rparr>"

definition bnd ::
  "('w state \<Rightarrow> ('a, 'w) outcome) \<Rightarrow> ('a \<Rightarrow> 'w state \<Rightarrow> ('b, 'w) outcome)
     \<Rightarrow> 'w state \<Rightarrow> ('b, 'w) outcome" where
  "bnd m f s = (case m s of Done x s' \<Rightarrow> f x s' | Raised e s' \<Rightarrow> Raised e s')"

definition final :: "('a, 'w) outcome \<Rightarrow> 'w state" where
  "final r = (case r of Done x s \<Rightarrow> s | Raised e s \<Rightarrow> s)"

definition mk_event ::
  "callee \<Rightarrow> pyval list \<Rightarrow> (string \<times> pyval) list \<Rightarrow> obj list \<Rightarrow> exn + pyval \<Rightarrow> obj list
     \<Rightarrow> event" where
  "mk_event f ps kw ins r outs =
     \<lparr>callee = f, args = ps, kwargs = kw, seen = ins, result = r, left = outs\<rparr>"

text \<open>A call whose behaviour is the library's and whose arguments hold no object of the
  store: it may raise, and it returns a value and a new library state.\<close>

definition call ::
  "'w libs \<Rightarrow> callee \<Rightarrow> pyval list \<Rightarrow> (string \<times> pyval) list \<Rightarrow> 'w state
     \<Rightarrow> (pyval, 'w) outcome" where
  "call lib f ps kw s =
     (case lib f ps kw [] (world s) of
        Inl e \<Rightarrow> Raised e (s\<lparr>trace := trace s @ [mk_event f ps kw [] (Inl e) []]\<rparr>)
      | Inr (v, obs, w') \<Rightarrow>
          Done v (s\<lparr>world := w', trace := trace s @ [mk_event f ps kw [] (Inr v) []]\<rparr>))"

text \<open>A library call that is handed the store object \<open>target\<close> among its arguments: the
  library sees the object's contents and may replace them in place. A call that raises
  leaves the store and the library state as they were.\<close>

definition call_on ::
  "'w libs \<Rightarrow> callee \<Rightarrow> pyval list \<Rightarrow> (string \<times> pyval) list \<Rightarrow> pyval \<Rightarrow> 'w state
     \<Rightarrow> (pyval, 'w) outcome" where
  "call_on lib f ps kw target s =
     (case target of
        PObj a \<Rightarrow>
          (if a < length (heap s)
           then (let ob = heap s ! a
                 in case lib f ps kw [ob] (world s) of
                      Inl e \<Rightarrow>
                        Raised e (s\<lparr>trace := trace s @ [mk_event f ps kw [ob] (Inl e) [ob]]\<rparr>)
                    | Inr (v, obs, w') \<Rightarrow>
                        (let ob' = (case obs of [] \<Rightarrow> ob | x # xs \<Rightarrow> x)
                         in Done v \<lparr>heap = (heap s)[a := ob'], world = w',
                                    trace = trace s @ [mk_event f ps kw [ob] (Inr v) [ob']]\<rparr>))
           else call lib f ps kw s)
      | _ \<Rightarrow> call lib f ps kw s)"

text \<open>A call that only builds an expression node: it is logged and returns the node.\<close>

definition build ::
  "string \<Rightarrow> pyval list \<Rightarrow> (string \<times> pyval) list \<Rightarrow> symbol \<Rightarrow> 'w state \<Rightarrow> (symbol, 'w) outcome" where
  "build name ps kw node s =
     Done node (s\<lparr>trace := trace s @ [mk_event (Fn Pybamm name) ps kw [] (Inr (PSym node)) []]\<rparr>)"

definition neg :: "symbol \<Rightarrow> 'w state \<Rightarrow> (symbol, 'w) outcome" where
  "neg x s =
     Done (Negate x)
       (s\<lparr>trace := trace s @ [mk_event (Method Pybamm ''__neg__'') [PSym x] [] [] (Inr (PSym (Negate x))) []]\<rparr>)"

text \<open>\<open>pybamm.BaseModel()\<close>: a fresh object with no attribute bound yet.\<close>

definition fresh_object :: obj where
  "fresh_object = []"

definition base_model :: "'w state \<Rightarrow> (pyval, 'w) outcome" where
  "base_model s =
     (let a = length (heap s)
      in Done (PObj a)
           (s\<lparr>heap := heap s @ [fresh_object],
              trace := trace s @ [mk_event (Fn Pybamm ''BaseModel'') [] [] [] (Inr (PObj a)) []]\<rparr>))"

fun put :: "string \<Rightarrow> pyval \<Rightarrow> obj \<Rightarrow> obj" where
  "put k v [] = [(k, v)]"
| "put k v ((k', v') # kvs) = (if k = k' then (k, v) # kvs else (k', v') # put k v kvs)"

text \<open>\<open>target.name = v\<close>: binds the attribute in the store; on anything that is not a
  live object Python raises \<open>AttributeError\<close>.\<close>

definition set_attr :: "pyval \<Rightarrow> string \<Rightarrow> pyval \<Rightarrow> 'w state \<Rightarrow> (unit, 'w) outcome" where
  "set_attr target name v s =
     (case target of
        PObj a \<Rightarrow>
          (if a < length (heap s)
           then (let ob = heap s ! a; ob' = put name v ob
                 in Done () (s\<lparr>heap := (heap s)[a := ob'],
                               trace := trace s @
                                 [mk_event (SetAttr Pybamm name) [target, v] [] [ob] (Inr PNone) [ob']]\<rparr>))
           else Raised (PyExn ''AttributeError'')
                  (s\<lparr>trace := trace s @
                       [mk_event (SetAttr Pybamm name) [target, v] [] []
                          (Inl (PyExn ''AttributeError'')) []]\<rparr>))
      | _ \<Rightarrow> Raised (PyExn ''AttributeError'')
               (s\<lparr>trace := trace s @
                    [mk_event (SetAttr Pybamm name) [target, v] [] []
                       (Inl (PyExn ''AttributeError'')) []]\<rparr>))"

text \<open>\<open>x, y = v\<close>: a sequence of exactly two items is taken apart; any other value
  raises \<open>ValueError\<close>.\<close>

fun two_items :: "pyval \<Rightarrow> (pyval \<times> pyval) option" where
  "two_items (PTuple [x, y]) = Some (x, y)"
| "two_items (PList [x, y]) = Some (x, y)"
| "two_items v = None"

definition unpack :: "pyval \<Rightarrow> 'w state \<Rightarrow> (pyval \<times> pyval, 'w) outcome" where
  "unpack v s =
     (case two_items v of
        Some xy \<Rightarrow> Done xy (s\<lparr>trace := trace s @ [mk_event Unpack [v] [] [] (Inr v) []]\<rparr>)
      | None \<Rightarrow> Raised (PyExn ''ValueError'')
                 (s\<lparr>trace := trace s @
                      [mk_event Unpack [v] [] [] (Inl (PyExn ''ValueError'')) []]\<rparr>))"

text \<open>Reading an attribute of a store object, as \<open>model.rhs\<close> would.\<close>

definition attr :: "'w state \<Rightarrow> pyval \<Rightarrow> string \<Rightarrow> pyval option" where
  "attr s target name =
     (case target of
        PObj a \<Rightarrow> (if a < length (heap s) then map_of (heap s ! a) name else None)
      | _ \<Rightarrow> None)"

text \<open>Subscripting a dict value, \<open>d[k]\<close>.\<close>

definition item :: "pyval option \<Rightarrow> pyval \<Rightarrow> pyval option" where
  "item d k = (case d of Some (PDict kvs) \<Rightarrow> map_of kvs k | _ \<Rightarrow> None)"

subsection \<open>The code cells\<close>

text \<open>Cell 1: the three imports.\<close>

definition cell1 :: "'w libs \<Rightarrow> 'w state \<Rightarrow> (unit, 'w) outcome" where
  "cell1 lib =
     bnd (call lib (Import Pybamm) [] []) (\<lambda>_.
     bnd (call lib (Import Numpy) [] []) (\<lambda>_.
     bnd (call lib (Import Matplotlib) [] []) (\<lambda>_. Done ())))"

text \<open>Cell 2: \<open>model = pybamm.BaseModel()\<close> and the variable \<open>c\<close>.\<close>

definition cell2 :: "'w state \<Rightarrow> (pyval \<times> symbol, 'w) outcome" where
  "cell2 =
     bnd base_model (\<lambda>model.
     bnd (build ''Variable'' [PStr ''Concentration''] [(''domain'', PStr ''negative particle'')]
            (Variable ''Concentration'' ''negative particle'')) (\<lambda>c.
     Done (model, c)))"

text \<open>Cell 3: the flux \<open>N = -pybamm.grad(c)\<close>, \<open>dcdt = -pybamm.div(N)\<close> and
  \<open>model.rhs = {c: dcdt}\<close>.\<close>

definition cell3 :: "pyval \<Rightarrow> symbol \<Rightarrow> 'w state \<Rightarrow> (symbol, 'w) outcome" where
  "cell3 model c =
     bnd (build ''grad'' [PSym c] [] (Gradient c)) (\<lambda>g.
     bnd (neg g) (\<lambda>N.
     bnd (build ''div'' [PSym N] [] (Divergence N)) (\<lambda>d.
     bnd (neg d) (\<lambda>dcdt.
     bnd (set_attr model ''rhs'' (PDict [(PSym c, PSym dcdt)])) (\<lambda>_.
     Done N)))))"

text \<open>Cell 4: the initial condition and the two boundary conditions.\<close>

definition cell4 :: "pyval \<Rightarrow> symbol \<Rightarrow> 'w state \<Rightarrow> (unit, 'w) outcome" where
  "cell4 model c =
     bnd (build ''Scalar'' [PInt 1] [] (Scalar 1)) (\<lambda>one.
     bnd (set_attr model ''initial_conditions'' (PDict [(PSym c, PSym one)])) (\<lambda>_.
     bnd (build ''Scalar'' [PInt 0] [] (Scalar 0)) (\<lambda>lbc.
     bnd (build ''Scalar'' [PInt 2] [] (Scalar 2)) (\<lambda>rbc.
     set_attr model ''boundary_conditions''
       (PDict [(PSym c,
          PDict [(PStr ''left'', PTuple [PSym lbc, PStr ''Dirichlet'']),
                 (PStr ''right'', PTuple [PSym rbc, PStr ''Neumann''])])])))))"

text \<open>Cell 5: the output variables.\<close>

definition cell5 :: "pyval \<Rightarrow> symbol \<Rightarrow> symbol \<Rightarrow> 'w state \<Rightarrow> (unit, 'w) outcome" where
  "cell5 model c N =
     set_attr model ''variables''
       (PDict [(PStr ''Concentration'', PSym c), (PStr ''Flux'', PSym N)])"

text \<open>Cells 2 to 5, the definition of the model, returning the bindings
  \<open>model\<close>, \<open>c\<close> and \<open>N\<close>.\<close>

definition define_model :: "'w state \<Rightarrow> (pyval \<times> symbol \<times> symbol, 'w) outcome" where
  "define_model =
     bnd cell2 (\<lambda>(model, c).
     bnd (cell3 model c) (\<lambda>N.
     bnd (cell4 model c) (\<lambda>_.
     bnd (cell5 model c N) (\<lambda>_.
     Done (model, c, N)))))"

text \<open>Cell 6: the spatial variable \<open>r\<close> and the nested dictionary \<open>geometry\<close>.\<close>

definition cell6 :: "'w state \<Rightarrow> (symbol \<times> pyval, 'w) outcome" where
  "cell6 =
     bnd (build ''SpatialVariable'' [PStr ''r'']
            [(''domain'', PList [PStr ''negative particle'']),
             (''coord_sys'', PStr ''spherical polar'')]
            (SpatialVariable ''r'' [''negative particle''] ''spherical polar'')) (\<lambda>r.
     bnd (build ''Scalar'' [PInt 0] [] (Scalar 0)) (\<lambda>lo.
     bnd (build ''Scalar'' [PInt 1] [] (Scalar 1)) (\<lambda>hi.
     Done (r,
       PDict [(PStr ''negative particle'',
         PDict [(PStr ''primary'',
           PDict [(PSym r, PDict [(PStr ''min'', PSym lo), (PStr ''max'', PSym hi)])])])]))))"

text \<open>Cell 7: the submesh generator, the point counts and \<open>pybamm.Mesh\<close>.\<close>

definition cell7 :: "'w libs \<Rightarrow> symbol \<Rightarrow> pyval \<Rightarrow> 'w state \<Rightarrow> (pyval, 'w) outcome" where
  "cell7 lib r geometry =
     bnd (call lib (Fn Pybamm ''MeshGenerator'') [PClass ''pybamm.Uniform1DSubMesh''] []) (\<lambda>gen.
     (let submesh_types = PDict [(PStr ''negative particle'', gen)];
          var_pts = PDict [(PSym r, PInt 20)]
      in call lib (Fn Pybamm ''Mesh'') [geometry, submesh_types, var_pts] []))"

text \<open>Cell 8: the spatial method, the discretisation and \<open>disc.process_model(model)\<close>,
  whose return value is dropped.\<close>

definition cell8 :: "'w libs \<Rightarrow> pyval \<Rightarrow> pyval \<Rightarrow> 'w state \<Rightarrow> (unit, 'w) outcome" where
  "cell8 lib model mesh =
     bnd (call lib (Fn Pybamm ''FiniteVolume'') [] []) (\<lambda>fv.
     (let spatial_methods = PDict [(PStr ''negative particle'', fv)]
      in bnd (call lib (Fn Pybamm ''Discretisation'') [mesh, spatial_methods] []) (\<lambda>disc.
         bnd (call_on lib (Method Pybamm ''process_model'') [disc, model] [] model) (\<lambda>_.
         Done ()))))"

text \<open>Cell 9 has three commented parts. The first, \<open># solve\<close>: the solver, the output
  times and \<open>solver.solve(model, t)\<close>.\<close>

definition solve_part :: "'w libs \<Rightarrow> pyval \<Rightarrow> 'w state \<Rightarrow> (pyval, 'w) outcome" where
  "solve_part lib model =
     bnd (call lib (Fn Pybamm ''ScipySolver'') [] []) (\<lambda>solver.
     bnd (call lib (Fn Numpy ''linspace'') [PInt 0, PInt 1, PInt 100] []) (\<lambda>t.
     call_on lib (Method Pybamm ''solve'') [solver, model, t] [] model))"

text \<open>The second, \<open># post-process\<close>: \<open>c = solution["Concentration"]\<close>, which rebinds
  the name \<open>c\<close>.\<close>

definition post_process :: "'w libs \<Rightarrow> pyval \<Rightarrow> 'w state \<Rightarrow> (pyval, 'w) outcome" where
  "post_process lib solution =
     call lib (Method Pybamm ''__getitem__'') [solution, PStr ''Concentration''] []"

text \<open>The third, \<open># plot\<close>. Arguments are evaluated left to right, so
  \<open>ax1.plot(solution.t, c(solution.t, r=1))\<close> reads \<open>solution.t\<close> twice before the
  processed variable and then \<open>plot\<close> are called. The name \<open>r\<close> is rebound here.\<close>

definition plot_part :: "'w libs \<Rightarrow> pyval \<Rightarrow> pyval \<Rightarrow> 'w state \<Rightarrow> (unit, 'w) outcome" where
  "plot_part lib solution c =
     bnd (call lib (Fn Matplotlib ''subplots'') [PInt 1, PInt 2]
            [(''figsize'', PTuple [PInt 13, PInt 4])]) (\<lambda>figax.
     bnd (unpack figax) (\<lambda>(fig, axs).
     bnd (unpack axs) (\<lambda>(ax1, ax2).
     bnd (call lib (GetAttr Pybamm ''t'') [solution] []) (\<lambda>xs1.
     bnd (call lib (GetAttr Pybamm ''t'') [solution] []) (\<lambda>ts1.
     bnd (call lib (Method Pybamm ''__call__'') [c, ts1] [(''r'', PInt 1)]) (\<lambda>ys1.
     bnd (call lib (Method Matplotlib ''plot'') [ax1, xs1, ys1] []) (\<lambda>_.
     bnd (call lib (Method Matplotlib ''set_xlabel'') [ax1, PStr ''t''] []) (\<lambda>_.
     bnd (call lib (Method Matplotlib ''set_ylabel'') [ax1, PStr ''Surface concentration''] []) (\<lambda>_.
     bnd (call lib (Fn Numpy ''linspace'') [PInt 0, PInt 1, PInt 100] []) (\<lambda>r.
     bnd (call lib (Method Pybamm ''__call__'') [c] [(''t'', PFloat (1 / 2)), (''r'', r)]) (\<lambda>ys2.
     bnd (call lib (Method Matplotlib ''plot'') [ax2, r, ys2] []) (\<lambda>_.
     bnd (call lib (Method Matplotlib ''set_xlabel'') [ax2, PStr ''r''] []) (\<lambda>_.
     bnd (call lib (Method Matplotlib ''set_ylabel'') [ax2, PStr ''Concentration at t=0.5''] []) (\<lambda>_.
     bnd (call lib (Fn Matplotlib ''tight_layout'') [] []) (\<lambda>_.
     bnd (call lib (Fn Matplotlib ''show'') [] []) (\<lambda>_.
     Done ()))))))))))))))))"

definition cell9 :: "'w libs \<Rightarrow> pyval \<Rightarrow> 'w state \<Rightarrow> (unit, 'w) outcome" where
  "cell9 lib model =
     bnd (solve_part lib model) (\<lambda>solution.
     bnd (post_process lib solution) (\<lambda>c.
     plot_part lib solution c))"

text \<open>The whole notebook, cell after cell.\<close>

definition notebook :: "'w libs \<Rightarrow> 'w state \<Rightarrow> (unit, 'w) outcome" where
  "notebook lib =
     bnd (cell1 lib) (\<lambda>_.
     bnd define_model (\<lambda>(model, c, N).
     bnd cell6 (\<lambda>(r, geometry).
     bnd (cell7 lib r geometry) (\<lambda>mesh.
     bnd (cell8 lib model mesh) (\<lambda>_.
     cell9 lib model)))))"

subsection \<open>What the expressions mean\<close>

text \<open>
  The meaning of an expression in a space \<open>'f\<close> of fields. The gradient and divergence
  operators \<open>gr\<close> and \<open>dv\<close>, the embedding \<open>cst\<close> of constants and the values \<open>env\<close> of
  the variables are the library's and are parameters here; unary minus is the negation
  of the field.
\<close>

fun denote ::
  "('f \<Rightarrow> 'f) \<Rightarrow> ('f \<Rightarrow> 'f) \<Rightarrow> (int \<Rightarrow> 'f) \<Rightarrow> (symbol \<Rightarrow> 'f) \<Rightarrow> symbol \<Rightarrow> ('f :: uminus)" where
  "denote gr dv cst env (Variable n d) = env (Variable n d)"
| "denote gr dv cst env (SpatialVariable n d k) = env (SpatialVariable n d k)"
| "denote gr dv cst env (Scalar k) = cst k"
| "denote gr dv cst env (Gradient x) = gr (denote gr dv cst env x)"
| "denote gr dv cst env (Divergence x) = dv (denote gr dv cst env x)"
| "denote gr dv cst env (Negate x) = - denote gr dv cst env x"

text \<open>The names an expression mentions: the variables and spatial variables below it.\<close>

fun mentions :: "symbol \<Rightarrow> symbol list" where
  "mentions (Variable n d) = [Variable n d]"
| "mentions (SpatialVariable n d k) = [SpatialVariable n d k]"
| "mentions (Scalar k) = []"
| "mentions (Gradient x) = mentions x"
| "mentions (Divergence x) = mentions x"
| "mentions (Negate x) = mentions x"

subsection \<open>Observing a run\<close>

definition completed :: "('a, 'w) outcome \<Rightarrow> bool" where
  "completed r = (case r of Done x s \<Rightarrow> True | Raised e s \<Rightarrow> False)"

definition succeeded :: "event \<Rightarrow> bool" where
  "succeeded ev = (case result ev of Inr v \<Rightarrow> True | Inl e \<Rightarrow> False)"

definition calls_to :: "callee \<Rightarrow> event list \<Rightarrow> event list" where
  "calls_to f tr = filter (\<lambda>ev. callee ev = f) tr"

text \<open>The position of the first call to \<open>f\<close> in a trace (its length when there is none).\<close>

definition position :: "callee \<Rightarrow> event list \<Rightarrow> nat" where
  "position f tr = length (takeWhile (\<lambda>ev. callee ev \<noteq> f) tr)"





text \<open>A program whose callees are the list \<open>cs\<close>, in this order, whatever the library
  answers: a run that completes logs all of them, a run that stops logs the first
  \<open>k + 1\<close> of them.\<close>

definition emits :: "callee list \<Rightarrow> ('w state \<Rightarrow> ('a, 'w) outcome) \<Rightarrow> bool" where
  "emits cs m =
     (\<forall>s. case m s of
        Done x s' \<Rightarrow> map callee (trace s') = map callee (trace s) @ cs
      | Raised e s' \<Rightarrow>
          (\<exists>k < length cs. map callee (trace s') = map callee (trace s) @ take (Suc k) cs))"

subsection \<open>The values and calls of the notebook, written out\<close>

definition conc :: symbol where
  "conc = Variable ''Concentration'' ''negative particle''"

definition flux :: symbol where
  "flux = Negate (Gradient conc)"

definition rvar :: symbol where
  "rvar = SpatialVariable ''r'' [''negative particle''] ''spherical polar''"

definition geometry :: pyval where
  "geometry =
     PDict [(PStr ''negative particle'',
       PDict [(PStr ''primary'',
         PDict [(PSym rvar,
           PDict [(PStr ''min'', PSym (Scalar 0)), (PStr ''max'', PSym (Scalar 1))])])])]"

text \<open>The model object as cells 2 to 5 leave it.\<close>

definition model_object :: obj where
  "model_object =
     [(''rhs'', PDict [(PSym conc, PSym (Negate (Divergence flux)))]),
      (''initial_conditions'', PDict [(PSym conc, PSym (Scalar 1))]),
      (''boundary_conditions'',
         PDict [(PSym conc,
           PDict [(PStr ''left'', PTuple [PSym (Scalar 0), PStr ''Dirichlet'']),
                  (PStr ''right'', PTuple [PSym (Scalar 2), PStr ''Neumann''])])]),
      (''variables'', PDict [(PStr ''Concentration'', PSym conc), (PStr ''Flux'', PSym flux)])]"

definition import_calls :: "callee list" where
  "import_calls = [Import Pybamm, Import Numpy, Import Matplotlib]"

definition model_calls :: "callee list" where
  "model_calls =
     [Fn Pybamm ''BaseModel'', Fn Pybamm ''Variable'',
      Fn Pybamm ''grad'', Method Pybamm ''__neg__'', Fn Pybamm ''div'', Method Pybamm ''__neg__'',
      SetAttr Pybamm ''rhs'',
      Fn Pybamm ''Scalar'', SetAttr Pybamm ''initial_conditions'',
      Fn Pybamm ''Scalar'', Fn Pybamm ''Scalar'', SetAttr Pybamm ''boundary_conditions'',
      SetAttr Pybamm ''variables'']"

definition geometry_calls :: "callee list" where
  "geometry_calls = [Fn Pybamm ''SpatialVariable'', Fn Pybamm ''Scalar'', Fn Pybamm ''Scalar'']"

definition mesh_calls :: "callee list" where
  "mesh_calls = [Fn Pybamm ''MeshGenerator'', Fn Pybamm ''Mesh'']"

definition discretise_calls :: "callee list" where
  "discretise_calls =
     [Fn Pybamm ''FiniteVolume'', Fn Pybamm ''Discretisation'', Method Pybamm ''process_model'']"

definition solve_calls :: "callee list" where
  "solve_calls = [Fn Pybamm ''ScipySolver'', Fn Numpy ''linspace'', Method Pybamm ''solve'']"

definition post_calls :: "callee list" where
  "post_calls = [Method Pybamm ''__getitem__'']"

definition plot_calls :: "callee list" where
  "plot_calls =
     [Fn Matplotlib ''subplots'', Unpack, Unpack,
      GetAttr Pybamm ''t'', GetAttr Pybamm ''t'', Method Pybamm ''__call__'',
      Method Matplotlib ''plot'', Method Matplotlib ''set_xlabel'', Method Matplotlib ''set_ylabel'',
      Fn Numpy ''linspace'', Method Pybamm ''__call__'',
      Method Matplotlib ''plot'', Method Matplotlib ''set_xlabel'', Method Matplotlib ''set_ylabel'',
      Fn Matplotlib ''tight_layout'', Fn Matplotlib ''show'']"

definition notebook_calls :: "callee list" where
  "notebook_calls =
     import_calls @ model_calls @ geometry_calls @ mesh_calls @ discretise_calls @
     solve_calls @ post_calls @ plot_calls"

subsection \<open>Two libraries to run the notebook against\<close>

text \<open>A library that never raises: every call returns a fresh handle, \<open>subplots\<close> returns
  a figure and a pair of axes, and \<open>process_model\<close> marks the model it is handed.\<close>

definition quiet :: "nat libs" where
  "quiet f ps kw obs n =
     (if f = Fn Matplotlib ''subplots''
      then Inr (PTuple [POpaque n, PList [POpaque (n + 1), POpaque (n + 2)]], obs, n + 3)
      else if f = Method Pybamm ''process_model''
      then Inr (PNone, map (put ''discretised'' (PStr ''yes'')) obs, n)
      else Inr (POpaque n, obs, n + 1))"


subsection \<open>Events and sequencing\<close>

lemma mk_event_sel [simp]:
  "callee (mk_event f ps kw i r l) = f"
  "args (mk_event f ps kw i r l) = ps"
  "kwargs (mk_event f ps kw i r l) = kw"
  "seen (mk_event f ps kw i r l) = i"
  "result (mk_event f ps kw i r l) = r"
  "left (mk_event f ps kw i r l) = l"
  by (simp_all add: mk_event_def)

lemma mk_event_inj:
  "mk_event f ps kw i r l = mk_event f' ps' kw' i' r' l' \<longleftrightarrow>
     f = f' \<and> ps = ps' \<and> kw = kw' \<and> i = i' \<and> r = r' \<and> l = l'"
  by (auto simp: mk_event_def)

lemma succeeded_mk_event [simp]:
  "succeeded (mk_event f ps kw i (Inr v) l)"
  "\<not> succeeded (mk_event f ps kw i (Inl e) l)"
  by (simp_all add: succeeded_def)

lemma bnd_DoneE:
  assumes "bnd m f s = Done y s'"
  obtains x s1 where "m s = Done x s1" and "f x s1 = Done y s'"
  using assms by (auto simp: bnd_def split: outcome.splits)

subsection \<open>The callees of each cell\<close>

lemma emits_Done: "emits [] (Done x)"
  by (simp add: emits_def)

lemma emits_call: "emits [f] (call lib f ps kw)"
  by (auto simp: emits_def call_def split: sum.splits)

lemma emits_call_on: "emits [f] (call_on lib f ps kw target)"
  by (auto simp: emits_def call_on_def call_def Let_def split: sum.splits pyval.splits list.splits)

lemma emits_build: "emits [Fn Pybamm name] (build name ps kw node)"
  by (simp add: emits_def build_def)

lemma emits_neg: "emits [Method Pybamm ''__neg__''] (neg x)"
  by (simp add: emits_def neg_def)

lemma emits_base_model: "emits [Fn Pybamm ''BaseModel''] base_model"
  by (simp add: emits_def base_model_def Let_def)

lemma emits_set_attr: "emits [SetAttr Pybamm name] (set_attr target name v)"
  by (auto simp: emits_def set_attr_def Let_def split: pyval.splits)

lemma emits_unpack: "emits [Unpack] (unpack v)"
  by (auto simp: emits_def unpack_def split: option.splits)

lemma emits_bnd:
  assumes "emits cs1 m" and "\<And>x. emits cs2 (f x)"
  shows "emits (cs1 @ cs2) (bnd m f)"
  unfolding emits_def
proof
  fix s
  show "case bnd m f s of
          Done x s' \<Rightarrow> map callee (trace s') = map callee (trace s) @ cs1 @ cs2
        | Raised e s' \<Rightarrow>
            \<exists>k < length (cs1 @ cs2).
              map callee (trace s') = map callee (trace s) @ take (Suc k) (cs1 @ cs2)"
  proof (cases "m s")
    case (Raised e s1)
    with assms(1) obtain k where "k < length cs1"
        and "map callee (trace s1) = map callee (trace s) @ take (Suc k) cs1"
      by (auto simp: emits_def dest!: spec [of _ s])
    with Raised show ?thesis
      by (auto simp: bnd_def intro!: exI [of _ k])
  next
    case (Done x s1)
    with assms(1) have t1: "map callee (trace s1) = map callee (trace s) @ cs1"
      by (auto simp: emits_def dest!: spec [of _ s])
    show ?thesis
    proof (cases "f x s1")
      case (Done y s2)
      with assms(2) [of x] have "map callee (trace s2) = map callee (trace s1) @ cs2"
        by (auto simp: emits_def dest!: spec [of _ s1])
      with t1 Done \<open>m s = Done x s1\<close> show ?thesis
        by (simp add: bnd_def)
    next
      case (Raised e s2)
      with assms(2) [of x] obtain k where "k < length cs2"
          and "map callee (trace s2) = map callee (trace s1) @ take (Suc k) cs2"
        by (auto simp: emits_def dest!: spec [of _ s1])
      with t1 Raised \<open>m s = Done x s1\<close> show ?thesis
        by (auto simp: bnd_def intro!: exI [of _ "length cs1 + k"])
    qed
  qed
qed

lemma emits_step:
  assumes "emits [c] m" and "\<And>x. emits cs (f x)"
  shows "emits (c # cs) (bnd m f)"
  using emits_bnd [OF assms] by simp

lemma emits_case_prod:
  assumes "\<And>a b. emits cs (f a b)"
  shows "emits cs (case p of (a, b) \<Rightarrow> f a b)"
  using assms by (cases p) simp

lemmas emits_rules =
  emits_step emits_case_prod emits_Done emits_call emits_call_on emits_build emits_neg
  emits_base_model emits_set_attr emits_unpack

lemma emits_cell1: "emits import_calls (cell1 lib)"
  unfolding cell1_def import_calls_def by (intro emits_rules)

lemma emits_cell2: "emits [Fn Pybamm ''BaseModel'', Fn Pybamm ''Variable''] cell2"
  unfolding cell2_def by (intro emits_rules)

lemma emits_cell3:
  "emits [Fn Pybamm ''grad'', Method Pybamm ''__neg__'', Fn Pybamm ''div'',
          Method Pybamm ''__neg__'', SetAttr Pybamm ''rhs''] (cell3 model c)"
  unfolding cell3_def by (intro emits_rules)

lemma emits_cell4:
  "emits [Fn Pybamm ''Scalar'', SetAttr Pybamm ''initial_conditions'', Fn Pybamm ''Scalar'',
          Fn Pybamm ''Scalar'', SetAttr Pybamm ''boundary_conditions''] (cell4 model c)"
  unfolding cell4_def by (intro emits_rules)

lemma emits_cell5: "emits [SetAttr Pybamm ''variables''] (cell5 model c N)"
  unfolding cell5_def by (intro emits_rules)

lemma emits_define_model: "emits model_calls define_model"
proof -
  have "emits ([Fn Pybamm ''BaseModel'', Fn Pybamm ''Variable''] @
               [Fn Pybamm ''grad'', Method Pybamm ''__neg__'', Fn Pybamm ''div'',
                Method Pybamm ''__neg__'', SetAttr Pybamm ''rhs''] @
               [Fn Pybamm ''Scalar'', SetAttr Pybamm ''initial_conditions'', Fn Pybamm ''Scalar'',
                Fn Pybamm ''Scalar'', SetAttr Pybamm ''boundary_conditions''] @
               [SetAttr Pybamm ''variables''] @ []) define_model"
    unfolding define_model_def
    by (intro emits_bnd emits_case_prod emits_cell2 emits_cell3 emits_cell4 emits_cell5 emits_Done)
  then show ?thesis by (simp add: model_calls_def)
qed

lemma emits_cell6: "emits geometry_calls cell6"
  unfolding cell6_def geometry_calls_def by (intro emits_rules)

lemma emits_cell7: "emits mesh_calls (cell7 lib r g)"
  unfolding cell7_def mesh_calls_def Let_def by (intro emits_rules)

lemma emits_cell8: "emits discretise_calls (cell8 lib model mesh)"
  unfolding cell8_def discretise_calls_def Let_def by (intro emits_rules)

lemma emits_solve_part: "emits solve_calls (solve_part lib model)"
  unfolding solve_part_def solve_calls_def by (intro emits_rules)

lemma emits_post_process: "emits post_calls (post_process lib solution)"
  unfolding post_process_def post_calls_def by (intro emits_rules)

lemma emits_plot_part: "emits plot_calls (plot_part lib solution c)"
  unfolding plot_part_def plot_calls_def by (intro emits_rules)

lemma emits_cell9: "emits (solve_calls @ post_calls @ plot_calls) (cell9 lib model)"
  unfolding cell9_def by (intro emits_bnd emits_solve_part emits_post_process emits_plot_part)

lemma emits_notebook: "emits notebook_calls (notebook lib)"
  unfolding notebook_def notebook_calls_def
  by (intro emits_bnd emits_case_prod emits_cell1 emits_define_model emits_cell6 emits_cell7
        emits_cell8 emits_cell9)

lemma emitsD:
  assumes "emits cs m"
  shows "prefix (map callee (trace (final (m s)))) (map callee (trace s) @ cs)"
    and "completed (m s) \<Longrightarrow> map callee (trace (final (m s))) = map callee (trace s) @ cs"
  using assms
  by (auto simp: emits_def final_def completed_def take_is_prefix split: outcome.splits
           dest!: spec [of _ s])

subsection \<open>No exception is swallowed\<close>













subsection \<open>Cells 2 to 6 run the same way in every state\<close>

lemma cell2_run:
  assumes "heap s = []"
  shows "cell2 s =
     Done (PObj 0, conc)
       (s\<lparr>heap := [fresh_object],
          trace := trace s @
            [mk_event (Fn Pybamm ''BaseModel'') [] [] [] (Inr (PObj 0)) [],
             mk_event (Fn Pybamm ''Variable'') [PStr ''Concentration'']
               [(''domain'', PStr ''negative particle'')] [] (Inr (PSym conc)) []]\<rparr>)"
  using assms by (simp add: cell2_def bnd_def build_def base_model_def Let_def conc_def)

lemma cell3_run:
  "\<exists>tr. \<forall>s :: 'w state. heap s = [fresh_object] \<longrightarrow>
     cell3 (PObj 0) conc s = Done flux (s\<lparr>heap := [take 1 model_object], trace := trace s @ tr\<rparr>)"
  by (rule exI [of _ "trace (final (cell3 (PObj 0) conc \<lparr>heap = [fresh_object], world = (), trace = []\<rparr>))"])
     (simp add: cell3_def bnd_def build_def neg_def set_attr_def Let_def flux_def final_def
        model_object_def fresh_object_def)

lemma cell4_run:
  "\<exists>tr. \<forall>s :: 'w state. heap s = [take 1 model_object] \<longrightarrow>
     cell4 (PObj 0) conc s = Done () (s\<lparr>heap := [take 3 model_object], trace := trace s @ tr\<rparr>)"
  by (rule exI [of _ "trace (final (cell4 (PObj 0) conc
                        \<lparr>heap = [take 1 model_object], world = (), trace = []\<rparr>))"])
     (simp add: cell4_def bnd_def build_def set_attr_def Let_def final_def model_object_def)

lemma cell5_run:
  "\<exists>tr. \<forall>s :: 'w state. heap s = [take 3 model_object] \<longrightarrow>
     cell5 (PObj 0) conc flux s = Done () (s\<lparr>heap := [model_object], trace := trace s @ tr\<rparr>)"
  by (rule exI [of _ "trace (final (cell5 (PObj 0) conc flux
                        \<lparr>heap = [take 3 model_object], world = (), trace = []\<rparr>))"])
     (simp add: cell5_def set_attr_def Let_def final_def model_object_def)

lemma define_model_run:
  assumes "heap s = []"
  shows "\<exists>tr. define_model s =
           Done (PObj 0, conc, flux)
             (s\<lparr>heap := [model_object],
                trace := trace s @
                  mk_event (Fn Pybamm ''BaseModel'') [] [] [] (Inr (PObj 0)) [] # tr\<rparr>) \<and>
           Fn Pybamm ''BaseModel'' # map callee tr = model_calls"
proof -
  obtain t3 where c3: "\<And>s :: 'a state. heap s = [fresh_object] \<Longrightarrow>
      cell3 (PObj 0) conc s = Done flux (s\<lparr>heap := [take 1 model_object], trace := trace s @ t3\<rparr>)"
    using cell3_run by blast
  obtain t4 where c4: "\<And>s :: 'a state. heap s = [take 1 model_object] \<Longrightarrow>
      cell4 (PObj 0) conc s = Done () (s\<lparr>heap := [take 3 model_object], trace := trace s @ t4\<rparr>)"
    using cell4_run by blast
  obtain t5 where c5: "\<And>s :: 'a state. heap s = [take 3 model_object] \<Longrightarrow>
      cell5 (PObj 0) conc flux s = Done () (s\<lparr>heap := [model_object], trace := trace s @ t5\<rparr>)"
    using cell5_run by blast
  let ?v = "mk_event (Fn Pybamm ''Variable'') [PStr ''Concentration'']
              [(''domain'', PStr ''negative particle'')] [] (Inr (PSym conc)) []"
  let ?tr = "?v # t3 @ t4 @ t5"
  have run: "define_model s =
      Done (PObj 0, conc, flux)
        (s\<lparr>heap := [model_object],
           trace := trace s @ mk_event (Fn Pybamm ''BaseModel'') [] [] [] (Inr (PObj 0)) [] # ?tr\<rparr>)"
    using assms by (simp add: define_model_def bnd_def cell2_run c3 c4 c5)
  from emitsD(2) [OF emits_define_model, of s] run
  have "Fn Pybamm ''BaseModel'' # map callee ?tr = model_calls"
    by (simp add: completed_def final_def)
  with run show ?thesis by blast
qed

lemma cell6_run:
  "\<exists>tr. cell6 s = Done (rvar, geometry) (s\<lparr>trace := trace s @ tr\<rparr>) \<and>
        map callee tr = geometry_calls"
proof -
  let ?tr = "trace (final (cell6 (init ())))"
  have run: "cell6 s = Done (rvar, geometry) (s\<lparr>trace := trace s @ ?tr\<rparr>)"
    by (simp add: cell6_def bnd_def build_def geometry_def rvar_def final_def init_def)
  from emitsD(2) [OF emits_cell6, of s] run
  have "map callee ?tr = geometry_calls"
    by (simp add: completed_def final_def)
  with run show ?thesis by blast
qed

subsection \<open>What a completed cell has logged\<close>

lemma call_Done:
  assumes "call lib f ps kw s = Done v s'"
  shows "heap s' = heap s \<and> trace s' = trace s @ [mk_event f ps kw [] (Inr v) []]"
  using assms by (auto simp: call_def split: sum.splits)

lemma call_on_Done:
  assumes "call_on lib f ps kw (PObj a) s = Done v s'" and "heap s = [ob]" and "a = 0"
  shows "\<exists>ob'. heap s' = [ob'] \<and> trace s' = trace s @ [mk_event f ps kw [ob] (Inr v) [ob']]"
  using assms by (auto simp: call_on_def Let_def split: sum.splits list.splits)

lemma unpack_Done:
  assumes "unpack v s = Done xy s'"
  shows "two_items v = Some xy \<and> heap s' = heap s \<and>
         trace s' = trace s @ [mk_event Unpack [v] [] [] (Inr v) []]"
  using assms by (auto simp: unpack_def split: option.splits)

lemma cell1_Done:
  assumes "cell1 lib s = Done u s'"
  shows "\<exists>i1 i2 i3. heap s' = heap s \<and> trace s' = trace s @
     [mk_event (Import Pybamm) [] [] [] (Inr i1) [],
      mk_event (Import Numpy) [] [] [] (Inr i2) [],
      mk_event (Import Matplotlib) [] [] [] (Inr i3) []]"
  using assms unfolding cell1_def
  by (auto elim!: bnd_DoneE dest!: call_Done simp: mk_event_inj)

lemma cell7_Done:
  assumes "cell7 lib r g s = Done mesh s'"
  shows "\<exists>gen. heap s' = heap s \<and> trace s' = trace s @
     [mk_event (Fn Pybamm ''MeshGenerator'') [PClass ''pybamm.Uniform1DSubMesh''] [] [] (Inr gen) [],
      mk_event (Fn Pybamm ''Mesh'')
        [g, PDict [(PStr ''negative particle'', gen)], PDict [(PSym r, PInt 20)]] [] []
        (Inr mesh) []]"
  using assms unfolding cell7_def Let_def
  by (auto elim!: bnd_DoneE dest!: call_Done simp: mk_event_inj)

lemma cell8_Done:
  assumes "cell8 lib (PObj 0) mesh s = Done u s'" and "heap s = [ob]"
  shows "\<exists>fv disc pm ob'. heap s' = [ob'] \<and> trace s' = trace s @
     [mk_event (Fn Pybamm ''FiniteVolume'') [] [] [] (Inr fv) [],
      mk_event (Fn Pybamm ''Discretisation'') [mesh, PDict [(PStr ''negative particle'', fv)]] [] []
        (Inr disc) [],
      mk_event (Method Pybamm ''process_model'') [disc, PObj 0] [] [ob] (Inr pm) [ob']]"
proof -
  from assms(1) obtain fv s1 disc s2 pm where
      1: "call lib (Fn Pybamm ''FiniteVolume'') [] [] s = Done fv s1"
    and 2: "call lib (Fn Pybamm ''Discretisation'') [mesh, PDict [(PStr ''negative particle'', fv)]] [] s1
              = Done disc s2"
    and 3: "call_on lib (Method Pybamm ''process_model'') [disc, PObj 0] [] (PObj 0) s2 = Done pm s'"
    unfolding cell8_def Let_def by (auto elim!: bnd_DoneE)
  from call_Done [OF 1] call_Done [OF 2] assms(2)
  have h2: "heap s2 = [ob]" and t2: "trace s2 = trace s @
      [mk_event (Fn Pybamm ''FiniteVolume'') [] [] [] (Inr fv) [],
       mk_event (Fn Pybamm ''Discretisation'') [mesh, PDict [(PStr ''negative particle'', fv)]] [] []
         (Inr disc) []]"
    by simp_all
  from call_on_Done [OF 3 h2] t2 show ?thesis by auto
qed

lemma solve_part_Done:
  assumes "solve_part lib (PObj 0) s = Done sol s'" and "heap s = [ob]"
  shows "\<exists>solver t ob'. heap s' = [ob'] \<and> trace s' = trace s @
     [mk_event (Fn Pybamm ''ScipySolver'') [] [] [] (Inr solver) [],
      mk_event (Fn Numpy ''linspace'') [PInt 0, PInt 1, PInt 100] [] [] (Inr t) [],
      mk_event (Method Pybamm ''solve'') [solver, PObj 0, t] [] [ob] (Inr sol) [ob']]"
proof -
  from assms(1) obtain solver s1 t s2 where
      1: "call lib (Fn Pybamm ''ScipySolver'') [] [] s = Done solver s1"
    and 2: "call lib (Fn Numpy ''linspace'') [PInt 0, PInt 1, PInt 100] [] s1 = Done t s2"
    and 3: "call_on lib (Method Pybamm ''solve'') [solver, PObj 0, t] [] (PObj 0) s2 = Done sol s'"
    unfolding solve_part_def by (auto elim!: bnd_DoneE)
  from call_Done [OF 1] call_Done [OF 2] assms(2)
  have h2: "heap s2 = [ob]" and t2: "trace s2 = trace s @
      [mk_event (Fn Pybamm ''ScipySolver'') [] [] [] (Inr solver) [],
       mk_event (Fn Numpy ''linspace'') [PInt 0, PInt 1, PInt 100] [] [] (Inr t) []]"
    by simp_all
  from call_on_Done [OF 3 h2] t2 show ?thesis by auto
qed

lemma post_process_Done:
  assumes "post_process lib sol s = Done c s'"
  shows "heap s' = heap s \<and> trace s' = trace s @
     [mk_event (Method Pybamm ''__getitem__'') [sol, PStr ''Concentration''] [] [] (Inr c) []]"
  using assms unfolding post_process_def by (auto dest!: call_Done)

lemma plot_part_Done:
  assumes "plot_part lib sol c s = Done u s'"
  shows "\<exists>figax fig axs ax1 ax2 xs1 ts1 ys1 p1 l1 l2 r ys2 p2 l3 l4 tl sh.
     two_items figax = Some (fig, axs) \<and> two_items axs = Some (ax1, ax2) \<and>
     heap s' = heap s \<and> trace s' = trace s @
     [mk_event (Fn Matplotlib ''subplots'') [PInt 1, PInt 2]
        [(''figsize'', PTuple [PInt 13, PInt 4])] [] (Inr figax) [],
      mk_event Unpack [figax] [] [] (Inr figax) [],
      mk_event Unpack [axs] [] [] (Inr axs) [],
      mk_event (GetAttr Pybamm ''t'') [sol] [] [] (Inr xs1) [],
      mk_event (GetAttr Pybamm ''t'') [sol] [] [] (Inr ts1) [],
      mk_event (Method Pybamm ''__call__'') [c, ts1] [(''r'', PInt 1)] [] (Inr ys1) [],
      mk_event (Method Matplotlib ''plot'') [ax1, xs1, ys1] [] [] (Inr p1) [],
      mk_event (Method Matplotlib ''set_xlabel'') [ax1, PStr ''t''] [] [] (Inr l1) [],
      mk_event (Method Matplotlib ''set_ylabel'') [ax1, PStr ''Surface concentration''] [] []
        (Inr l2) [],
      mk_event (Fn Numpy ''linspace'') [PInt 0, PInt 1, PInt 100] [] [] (Inr r) [],
      mk_event (Method Pybamm ''__call__'') [c] [(''t'', PFloat (1 / 2)), (''r'', r)] []
        (Inr ys2) [],
      mk_event (Method Matplotlib ''plot'') [ax2, r, ys2] [] [] (Inr p2) [],
      mk_event (Method Matplotlib ''set_xlabel'') [ax2, PStr ''r''] [] [] (Inr l3) [],
      mk_event (Method Matplotlib ''set_ylabel'') [ax2, PStr ''Concentration at t=0.5''] [] []
        (Inr l4) [],
      mk_event (Fn Matplotlib ''tight_layout'') [] [] [] (Inr tl) [],
      mk_event (Fn Matplotlib ''show'') [] [] [] (Inr sh) []]"
  using assms unfolding plot_part_def
  by (auto elim!: bnd_DoneE dest!: call_Done unpack_Done simp: mk_event_inj)

subsection \<open>The trace of a completed run\<close>

lemma notebook_trace:
  assumes "notebook lib (init w) = Done u s"
  shows "\<exists>i1 i2 i3 trm trg gen mesh fv disc pm ob1 solver t sol ob2 c
           figax fig axs ax1 ax2 xs1 ts1 ys1 p1 l1 l2 r ys2 p2 l3 l4 tl sh.
     Fn Pybamm ''BaseModel'' # map callee trm = model_calls \<and>
     map callee trg = geometry_calls \<and>
     two_items figax = Some (fig, axs) \<and> two_items axs = Some (ax1, ax2) \<and>
     heap s = [ob2] \<and>
     trace s =
       mk_event (Import Pybamm) [] [] [] (Inr i1) [] #
       mk_event (Import Numpy) [] [] [] (Inr i2) [] #
       mk_event (Import Matplotlib) [] [] [] (Inr i3) [] #
       mk_event (Fn Pybamm ''BaseModel'') [] [] [] (Inr (PObj 0)) [] #
       trm @ trg @
       [mk_event (Fn Pybamm ''MeshGenerator'') [PClass ''pybamm.Uniform1DSubMesh''] [] []
          (Inr gen) [],
        mk_event (Fn Pybamm ''Mesh'')
          [geometry, PDict [(PStr ''negative particle'', gen)], PDict [(PSym rvar, PInt 20)]] [] []
          (Inr mesh) [],
        mk_event (Fn Pybamm ''FiniteVolume'') [] [] [] (Inr fv) [],
        mk_event (Fn Pybamm ''Discretisation'') [mesh, PDict [(PStr ''negative particle'', fv)]]
          [] [] (Inr disc) [],
        mk_event (Method Pybamm ''process_model'') [disc, PObj 0] [] [model_object] (Inr pm) [ob1],
        mk_event (Fn Pybamm ''ScipySolver'') [] [] [] (Inr solver) [],
        mk_event (Fn Numpy ''linspace'') [PInt 0, PInt 1, PInt 100] [] [] (Inr t) [],
        mk_event (Method Pybamm ''solve'') [solver, PObj 0, t] [] [ob1] (Inr sol) [ob2],
        mk_event (Method Pybamm ''__getitem__'') [sol, PStr ''Concentration''] [] [] (Inr c) [],
        mk_event (Fn Matplotlib ''subplots'') [PInt 1, PInt 2]
          [(''figsize'', PTuple [PInt 13, PInt 4])] [] (Inr figax) [],
        mk_event Unpack [figax] [] [] (Inr figax) [],
        mk_event Unpack [axs] [] [] (Inr axs) [],
        mk_event (GetAttr Pybamm ''t'') [sol] [] [] (Inr xs1) [],
        mk_event (GetAttr Pybamm ''t'') [sol] [] [] (Inr ts1) [],
        mk_event (Method Pybamm ''__call__'') [c, ts1] [(''r'', PInt 1)] [] (Inr ys1) [],
        mk_event (Method Matplotlib ''plot'') [ax1, xs1, ys1] [] [] (Inr p1) [],
        mk_event (Method Matplotlib ''set_xlabel'') [ax1, PStr ''t''] [] [] (Inr l1) [],
        mk_event (Method Matplotlib ''set_ylabel'') [ax1, PStr ''Surface concentration''] [] []
          (Inr l2) [],
        mk_event (Fn Numpy ''linspace'') [PInt 0, PInt 1, PInt 100] [] [] (Inr r) [],
        mk_event (Method Pybamm ''__call__'') [c] [(''t'', PFloat (1 / 2)), (''r'', r)] []
          (Inr ys2) [],
        mk_event (Method Matplotlib ''plot'') [ax2, r, ys2] [] [] (Inr p2) [],
        mk_event (Method Matplotlib ''set_xlabel'') [ax2, PStr ''r''] [] [] (Inr l3) [],
        mk_event (Method Matplotlib ''set_ylabel'') [ax2, PStr ''Concentration at t=0.5''] [] []
          (Inr l4) [],
        mk_event (Fn Matplotlib ''tight_layout'') [] [] [] (Inr tl) [],
        mk_event (Fn Matplotlib ''show'') [] [] [] (Inr sh) []]"
proof -
  from assms obtain u1 s1 where
      c1: "cell1 lib (init w) = Done u1 s1"
    and r1: "bnd define_model (\<lambda>(model, c, N).
               bnd cell6 (\<lambda>(r, geometry).
               bnd (cell7 lib r geometry) (\<lambda>mesh.
               bnd (cell8 lib model mesh) (\<lambda>_. cell9 lib model)))) s1 = Done u s"
    unfolding notebook_def by (erule bnd_DoneE)
  from cell1_Done [OF c1] obtain i1 i2 i3 where
      h1: "heap s1 = []"
    and t1: "trace s1 =
       [mk_event (Import Pybamm) [] [] [] (Inr i1) [],
        mk_event (Import Numpy) [] [] [] (Inr i2) [],
        mk_event (Import Matplotlib) [] [] [] (Inr i3) []]"
    by (auto simp: init_def)
  from define_model_run [OF h1] obtain trm where
      dm: "define_model s1 =
             Done (PObj 0, conc, flux)
               (s1\<lparr>heap := [model_object],
                   trace := trace s1 @
                     mk_event (Fn Pybamm ''BaseModel'') [] [] [] (Inr (PObj 0)) [] # trm\<rparr>)"
    and cm: "Fn Pybamm ''BaseModel'' # map callee trm = model_calls"
    by blast
  define s2 where "s2 = s1\<lparr>heap := [model_object],
      trace := trace s1 @ mk_event (Fn Pybamm ''BaseModel'') [] [] [] (Inr (PObj 0)) [] # trm\<rparr>"
  from cell6_run [of s2] obtain trg where
      c6: "cell6 s2 = Done (rvar, geometry) (s2\<lparr>trace := trace s2 @ trg\<rparr>)"
    and cg: "map callee trg = geometry_calls"
    by blast
  define s6 where "s6 = s2\<lparr>trace := trace s2 @ trg\<rparr>"
  from r1 dm c6 have
    "bnd (cell7 lib rvar geometry) (\<lambda>mesh.
       bnd (cell8 lib (PObj 0) mesh) (\<lambda>_. cell9 lib (PObj 0))) s6 = Done u s"
    by (simp add: bnd_def s2_def s6_def)
  then obtain mesh s7 u8 s8 where
      c7: "cell7 lib rvar geometry s6 = Done mesh s7"
    and c8: "cell8 lib (PObj 0) mesh s7 = Done u8 s8"
    and c9: "cell9 lib (PObj 0) s8 = Done u s"
    by (elim bnd_DoneE)
  from c9 obtain sol s9 c s10 where
      c9a: "solve_part lib (PObj 0) s8 = Done sol s9"
    and c9b: "post_process lib sol s9 = Done c s10"
    and c9c: "plot_part lib sol c s10 = Done u s"
    unfolding cell9_def by (elim bnd_DoneE)
  have h6: "heap s6 = [model_object]"
    and t6: "trace s6 = trace s1 @
        mk_event (Fn Pybamm ''BaseModel'') [] [] [] (Inr (PObj 0)) [] # trm @ trg"
    by (simp_all add: s6_def s2_def)
  from cell7_Done [OF c7] h6 obtain gen where
      h7: "heap s7 = [model_object]"
    and t7: "trace s7 = trace s6 @
       [mk_event (Fn Pybamm ''MeshGenerator'') [PClass ''pybamm.Uniform1DSubMesh''] [] []
          (Inr gen) [],
        mk_event (Fn Pybamm ''Mesh'')
          [geometry, PDict [(PStr ''negative particle'', gen)], PDict [(PSym rvar, PInt 20)]] [] []
          (Inr mesh) []]"
    by auto
  from cell8_Done [OF c8 h7] obtain fv disc pm ob1 where
      h8: "heap s8 = [ob1]"
    and t8: "trace s8 = trace s7 @
       [mk_event (Fn Pybamm ''FiniteVolume'') [] [] [] (Inr fv) [],
        mk_event (Fn Pybamm ''Discretisation'') [mesh, PDict [(PStr ''negative particle'', fv)]]
          [] [] (Inr disc) [],
        mk_event (Method Pybamm ''process_model'') [disc, PObj 0] [] [model_object] (Inr pm) [ob1]]"
    by auto
  from solve_part_Done [OF c9a h8] obtain solver t ob2 where
      h9: "heap s9 = [ob2]"
    and t9: "trace s9 = trace s8 @
       [mk_event (Fn Pybamm ''ScipySolver'') [] [] [] (Inr solver) [],
        mk_event (Fn Numpy ''linspace'') [PInt 0, PInt 1, PInt 100] [] [] (Inr t) [],
        mk_event (Method Pybamm ''solve'') [solver, PObj 0, t] [] [ob1] (Inr sol) [ob2]]"
    by auto
  from post_process_Done [OF c9b] h9 have
      h10: "heap s10 = [ob2]"
    and t10: "trace s10 = trace s9 @
       [mk_event (Method Pybamm ''__getitem__'') [sol, PStr ''Concentration''] [] [] (Inr c) []]"
    by simp_all
  from plot_part_Done [OF c9c] obtain figax fig axs ax1 ax2 xs1 ts1 ys1 p1 l1 l2 r ys2 p2 l3 l4 tl sh
    where u1: "two_items figax = Some (fig, axs)" and u2: "two_items axs = Some (ax1, ax2)"
    and h11: "heap s = heap s10"
    and t11: "trace s = trace s10 @
     [mk_event (Fn Matplotlib ''subplots'') [PInt 1, PInt 2]
        [(''figsize'', PTuple [PInt 13, PInt 4])] [] (Inr figax) [],
      mk_event Unpack [figax] [] [] (Inr figax) [],
      mk_event Unpack [axs] [] [] (Inr axs) [],
      mk_event (GetAttr Pybamm ''t'') [sol] [] [] (Inr xs1) [],
      mk_event (GetAttr Pybamm ''t'') [sol] [] [] (Inr ts1) [],
      mk_event (Method Pybamm ''__call__'') [c, ts1] [(''r'', PInt 1)] [] (Inr ys1) [],
      mk_event (Method Matplotlib ''plot'') [ax1, xs1, ys1] [] [] (Inr p1) [],
      mk_event (Method Matplotlib ''set_xlabel'') [ax1, PStr ''t''] [] [] (Inr l1) [],
      mk_event (Method Matplotlib ''set_ylabel'') [ax1, PStr ''Surface concentration''] [] []
        (Inr l2) [],
      mk_event (Fn Numpy ''linspace'') [PInt 0, PInt 1, PInt 100] [] [] (Inr r) [],
      mk_event (Method Pybamm ''__call__'') [c] [(''t'', PFloat (1 / 2)), (''r'', r)] []
        (Inr ys2) [],
      mk_event (Method Matplotlib ''plot'') [ax2, r, ys2] [] [] (Inr p2) [],
      mk_event (Method Matplotlib ''set_xlabel'') [ax2, PStr ''r''] [] [] (Inr l3) [],
      mk_event (Method Matplotlib ''set_ylabel'') [ax2, PStr ''Concentration at t=0.5''] [] []
        (Inr l4) [],
      mk_event (Fn Matplotlib ''tight_layout'') [] [] [] (Inr tl) [],
      mk_event (Fn Matplotlib ''show'') [] [] [] (Inr sh) []]"
    by blast
  have ts: "trace s =
       mk_event (Import Pybamm) [] [] [] (Inr i1) [] #
       mk_event (Import Numpy) [] [] [] (Inr i2) [] #
       mk_event (Import Matplotlib) [] [] [] (Inr i3) [] #
       mk_event (Fn Pybamm ''BaseModel'') [] [] [] (Inr (PObj 0)) [] #
       trm @ trg @
       [mk_event (Fn Pybamm ''MeshGenerator'') [PClass ''pybamm.Uniform1DSubMesh''] [] []
          (Inr gen) [],
        mk_event (Fn Pybamm ''Mesh'')
          [geometry, PDict [(PStr ''negative particle'', gen)], PDict [(PSym rvar, PInt 20)]] [] []
          (Inr mesh) [],
        mk_event (Fn Pybamm ''FiniteVolume'') [] [] [] (Inr fv) [],
        mk_event (Fn Pybamm ''Discretisation'') [mesh, PDict [(PStr ''negative particle'', fv)]]
          [] [] (Inr disc) [],
        mk_event (Method Pybamm ''process_model'') [disc, PObj 0] [] [model_object] (Inr pm) [ob1],
        mk_event (Fn Pybamm ''ScipySolver'') [] [] [] (Inr solver) [],
        mk_event (Fn Numpy ''linspace'') [PInt 0, PInt 1, PInt 100] [] [] (Inr t) [],
        mk_event (Method Pybamm ''solve'') [solver, PObj 0, t] [] [ob1] (Inr sol) [ob2],
        mk_event (Method Pybamm ''__getitem__'') [sol, PStr ''Concentration''] [] [] (Inr c) [],
        mk_event (Fn Matplotlib ''subplots'') [PInt 1, PInt 2]
          [(''figsize'', PTuple [PInt 13, PInt 4])] [] (Inr figax) [],
        mk_event Unpack [figax] [] [] (Inr figax) [],
        mk_event Unpack [axs] [] [] (Inr axs) [],
        mk_event (GetAttr Pybamm ''t'') [sol] [] [] (Inr xs1) [],
        mk_event (GetAttr Pybamm ''t'') [sol] [] [] (Inr ts1) [],
        mk_event (Method Pybamm ''__call__'') [c, ts1] [(''r'', PInt 1)] [] (Inr ys1) [],
        mk_event (Method Matplotlib ''plot'') [ax1, xs1, ys1] [] [] (Inr p1) [],
        mk_event (Method Matplotlib ''set_xlabel'') [ax1, PStr ''t''] [] [] (Inr l1) [],
        mk_event (Method Matplotlib ''set_ylabel'') [ax1, PStr ''Surface concentration''] [] []
          (Inr l2) [],
        mk_event (Fn Numpy ''linspace'') [PInt 0, PInt 1, PInt 100] [] [] (Inr r) [],
        mk_event (Method Pybamm ''__call__'') [c] [(''t'', PFloat (1 / 2)), (''r'', r)] []
          (Inr ys2) [],
        mk_event (Method Matplotlib ''plot'') [ax2, r, ys2] [] [] (Inr p2) [],
        mk_event (Method Matplotlib ''set_xlabel'') [ax2, PStr ''r''] [] [] (Inr l3) [],
        mk_event (Method Matplotlib ''set_ylabel'') [ax2, PStr ''Concentration at t=0.5''] [] []
          (Inr l4) [],
        mk_event (Fn Matplotlib ''tight_layout'') [] [] [] (Inr tl) [],
        mk_event (Fn Matplotlib ''show'') [] [] [] (Inr sh) []]"
    by (simp add: t11 t10 t9 t8 t7 t6 t1)
  from h11 h10 have hs: "heap s = [ob2]" by simp
  from cm cg u1 u2 hs ts show ?thesis
    by (intro exI conjI)
qed

lemma quiet_completes: "completed (notebook quiet (init 0))"
  by code_simp


lemma calls_to_none:
  assumes "f \<notin> set (map callee tr)"
  shows "calls_to f tr = []"
  using assms by (induction tr) (auto simp: calls_to_def)

lemma calls_to_append: "calls_to f (xs @ ys) = calls_to f xs @ calls_to f ys"
  by (simp add: calls_to_def)

lemma calls_to_Cons:
  "calls_to f (ev # tr) = (if callee ev = f then ev # calls_to f tr else calls_to f tr)"
  by (simp add: calls_to_def)

lemma calls_to_Nil: "calls_to f [] = []"
  by (simp add: calls_to_def)

lemma position_callees: "position f tr = length (takeWhile (\<lambda>c. c \<noteq> f) (map callee tr))"
  by (simp add: position_def takeWhile_map comp_def)

lemma completed_final:
  assumes "completed r"
  obtains u where "r = Done u (final r)"
  using assms by (cases r) (auto simp: completed_def final_def)

lemma define_model_value:
  "define_model (init w) =
     Done (PObj 0, conc, flux)
       ((init w)\<lparr>heap := [model_object], trace := trace (final (define_model (init w)))\<rparr>)"
  using define_model_run [of "init w"] by (auto simp: init_def final_def)

lemmas calls_to_simps = calls_to_Cons calls_to_append calls_to_Nil calls_to_none

lemma completed_trace:
  assumes "completed (notebook lib (init w))"
  obtains u where "notebook lib (init w) = Done u (final (notebook lib (init w)))"
    and "map callee (trace (final (notebook lib (init w)))) = notebook_calls"
  using assms completed_final [OF assms] emitsD(2) [OF emits_notebook, of lib "init w"]
  by (auto simp: init_def)


lemmas all_calls =
  notebook_calls_def import_calls_def model_calls_def geometry_calls_def mesh_calls_def
  discretise_calls_def solve_calls_def post_calls_def plot_calls_def

subsection \<open>The claims\<close>

text \<open>
  Claim C1 says that the boundary conditions installed in \<open>model.boundary_conditions\<close> are
  the ones of the problem statement, a zero-gradient (Neumann) condition at the left
  boundary and the gradient 2 at the right one. Running cells 2 to 5 shows what the code
  installs: the entry for \<open>"right"\<close> is \<open>(Scalar(2), "Neumann")\<close> as stated, but the entry
  for \<open>"left"\<close> is \<open>(Scalar(0), "Dirichlet")\<close>, a condition on the value and not on
  the gradient, and it is not \<open>(Scalar(0), "Neumann")\<close>.
\<close>

theorem left_boundary_condition_is_dirichlet:
  "case define_model (init w) of
     Done (model, c, N) s \<Rightarrow>
       item (item (attr s model ''boundary_conditions'') (PSym c)) (PStr ''left'')
         = Some (PTuple [PSym (Scalar 0), PStr ''Dirichlet'']) \<and>
       item (item (attr s model ''boundary_conditions'') (PSym c)) (PStr ''left'')
         \<noteq> Some (PTuple [PSym (Scalar 0), PStr ''Neumann'']) \<and>
       item (item (attr s model ''boundary_conditions'') (PSym c)) (PStr ''right'')
         = Some (PTuple [PSym (Scalar 2), PStr ''Neumann''])
   | Raised e s \<Rightarrow> False"
  by (subst define_model_value) (simp add: attr_def item_def model_object_def)

text \<open>
  Claim C2: the right-hand side registered for \<open>c\<close> is \<open>-div(-grad(c))\<close>, and it denotes
  the same field as \<open>div(grad(c))\<close>: for every gradient operator, every divergence
  operator that commutes with negation (as every linear operator does), every embedding
  of constants and every value of the variables, the two negations cancel.
\<close>

theorem rhs_is_div_grad:
  fixes dv gr :: "'f :: group_add \<Rightarrow> 'f"
  assumes "\<And>x. dv (- x) = - dv x"
  shows "case define_model (init w) of
     Done (model, c, N) s \<Rightarrow>
       item (attr s model ''rhs'') (PSym c) = Some (PSym (Negate (Divergence (Negate (Gradient c))))) \<and>
       denote gr dv cst env (Negate (Divergence (Negate (Gradient c))))
         = denote gr dv cst env (Divergence (Gradient c))
   | Raised e s \<Rightarrow> False"
  by (subst define_model_value) (simp add: attr_def item_def model_object_def flux_def assms)

theorem rhs_is_div_grad_witness:
  "(\<forall>x :: int. 3 * (- x) = - (3 * x)) \<and>
   (case define_model (init ()) of
      Done (model, c, N) s \<Rightarrow>
        item (attr s model ''rhs'') (PSym c) = Some (PSym (Negate (Divergence (Negate (Gradient c))))) \<and>
        denote (\<lambda>x. 2 * x) (\<lambda>x. 3 * x) of_int (\<lambda>v. 5 :: int)
            (Negate (Divergence (Negate (Gradient c))))
          = denote (\<lambda>x. 2 * x) (\<lambda>x. 3 * x) of_int (\<lambda>v. 5) (Divergence (Gradient c))
    | Raised e s \<Rightarrow> False)"
  using rhs_is_div_grad [where dv = "\<lambda>x :: int. 3 * x" and gr = "\<lambda>x. 2 * x" and cst = of_int
      and env = "\<lambda>v. 5" and w = "()"]
  by simp

text \<open>
  Claim C3: in a run that completes, \<open>pybamm.Mesh\<close> is called exactly once, with three
  arguments: the geometry, whose single domain \<open>"negative particle"\<close> has the primary
  spatial variable \<open>r\<close> (spherical polar) with \<open>min = Scalar(0)\<close> and \<open>max = Scalar(1)\<close>;
  the submesh types, mapping that domain to what the single call
  \<open>MeshGenerator(Uniform1DSubMesh)\<close> returned; and the point counts \<open>{r: 20}\<close>.
\<close>

theorem mesh_from_bounds_and_point_count:
  assumes "completed (notebook lib (init w))"
  shows "\<exists>gen mesh.
     calls_to (Fn Pybamm ''MeshGenerator'') (trace (final (notebook lib (init w)))) =
       [mk_event (Fn Pybamm ''MeshGenerator'') [PClass ''pybamm.Uniform1DSubMesh''] [] []
          (Inr gen) []] \<and>
     calls_to (Fn Pybamm ''Mesh'') (trace (final (notebook lib (init w)))) =
       [mk_event (Fn Pybamm ''Mesh'')
          [PDict [(PStr ''negative particle'',
             PDict [(PStr ''primary'',
               PDict [(PSym (SpatialVariable ''r'' [''negative particle''] ''spherical polar''),
                 PDict [(PStr ''min'', PSym (Scalar 0)), (PStr ''max'', PSym (Scalar 1))])])])],
           PDict [(PStr ''negative particle'', gen)],
           PDict [(PSym (SpatialVariable ''r'' [''negative particle''] ''spherical polar''),
             PInt 20)]]
          [] [] (Inr mesh) []]"
proof -
  from assms obtain u where run: "notebook lib (init w) = Done u (final (notebook lib (init w)))"
    by (rule completed_trace)
  show ?thesis
    using notebook_trace [OF run]
    by (elim exE conjE)
       (simp add: calls_to_simps model_calls_def geometry_calls_def geometry_def rvar_def
          mk_event_inj)
qed

theorem mesh_from_bounds_and_point_count_witness:
  "completed (notebook quiet (init 0)) \<and>
   (\<exists>gen mesh.
     calls_to (Fn Pybamm ''MeshGenerator'') (trace (final (notebook quiet (init 0)))) =
       [mk_event (Fn Pybamm ''MeshGenerator'') [PClass ''pybamm.Uniform1DSubMesh''] [] []
          (Inr gen) []] \<and>
     calls_to (Fn Pybamm ''Mesh'') (trace (final (notebook quiet (init 0)))) =
       [mk_event (Fn Pybamm ''Mesh'')
          [PDict [(PStr ''negative particle'',
             PDict [(PStr ''primary'',
               PDict [(PSym (SpatialVariable ''r'' [''negative particle''] ''spherical polar''),
                 PDict [(PStr ''min'', PSym (Scalar 0)), (PStr ''max'', PSym (Scalar 1))])])])],
           PDict [(PStr ''negative particle'', gen)],
           PDict [(PSym (SpatialVariable ''r'' [''negative particle''] ''spherical polar''),
             PInt 20)]]
          [] [] (Inr mesh) []])"
  using quiet_completes mesh_from_bounds_and_point_count [OF quiet_completes] by (rule conjI)



text \<open>
  Claim C5, the order of the pipeline in a run that completes. \<open>process_model\<close> is called
  exactly once and sees the model object with all four attributes bound; everything
  before it is the imports, the definition of the model, the geometry, the mesh and the
  construction of the discretisation; \<open>Mesh\<close> comes before it, \<open>ScipySolver\<close> and then
  the single \<open>solve\<close> after it; and what follows \<open>solve\<close> is only the lookup
  \<open>solution["Concentration"]\<close> and the plotting part.
\<close>

theorem pipeline_order:
  assumes "completed (notebook lib (init w))"
  shows "(\<exists>disc pm ob1.
     calls_to (Method Pybamm ''process_model'') (trace (final (notebook lib (init w)))) =
       [mk_event (Method Pybamm ''process_model'') [disc, PObj 0] [] [model_object] (Inr pm) [ob1]]) \<and>
     map callee (take (position (Method Pybamm ''process_model'')
         (trace (final (notebook lib (init w))))) (trace (final (notebook lib (init w))))) =
       import_calls @ model_calls @ geometry_calls @ mesh_calls @
       [Fn Pybamm ''FiniteVolume'', Fn Pybamm ''Discretisation''] \<and>
     position (Fn Pybamm ''Mesh'') (trace (final (notebook lib (init w))))
       < position (Method Pybamm ''process_model'') (trace (final (notebook lib (init w)))) \<and>
     position (Method Pybamm ''process_model'') (trace (final (notebook lib (init w))))
       < position (Fn Pybamm ''ScipySolver'') (trace (final (notebook lib (init w)))) \<and>
     position (Fn Pybamm ''ScipySolver'') (trace (final (notebook lib (init w))))
       < position (Method Pybamm ''solve'') (trace (final (notebook lib (init w)))) \<and>
     length (calls_to (Method Pybamm ''solve'') (trace (final (notebook lib (init w))))) = 1 \<and>
     map callee (drop (Suc (position (Method Pybamm ''solve'')
         (trace (final (notebook lib (init w)))))) (trace (final (notebook lib (init w))))) =
       post_calls @ plot_calls"
proof -
  from assms obtain u where run: "notebook lib (init w) = Done u (final (notebook lib (init w)))"
    and cs: "map callee (trace (final (notebook lib (init w)))) = notebook_calls"
    by (rule completed_trace)
  have pos:
    "position (Method Pybamm ''process_model'') (trace (final (notebook lib (init w)))) = 23"
    "position (Fn Pybamm ''Mesh'') (trace (final (notebook lib (init w)))) = 20"
    "position (Fn Pybamm ''ScipySolver'') (trace (final (notebook lib (init w)))) = 24"
    "position (Method Pybamm ''solve'') (trace (final (notebook lib (init w)))) = 26"
    by (simp_all add: position_callees cs all_calls)
  have pre: "map callee (take 23 (trace (final (notebook lib (init w))))) =
       import_calls @ model_calls @ geometry_calls @ mesh_calls @
       [Fn Pybamm ''FiniteVolume'', Fn Pybamm ''Discretisation'']"
    by (simp add: take_map [symmetric] cs all_calls)
  have post: "map callee (drop (Suc 26) (trace (final (notebook lib (init w))))) =
       post_calls @ plot_calls"
    by (simp add: drop_map [symmetric] cs all_calls)
  have pm: "\<exists>disc pm ob1.
     calls_to (Method Pybamm ''process_model'') (trace (final (notebook lib (init w)))) =
       [mk_event (Method Pybamm ''process_model'') [disc, PObj 0] [] [model_object] (Inr pm) [ob1]]"
    and one: "length (calls_to (Method Pybamm ''solve'') (trace (final (notebook lib (init w))))) = 1"
    using notebook_trace [OF run]
    by (elim exE conjE, simp add: calls_to_simps model_calls_def geometry_calls_def mk_event_inj)+
  show ?thesis
    using pm one pre post by (simp add: pos)
qed

theorem pipeline_order_witness:
  "completed (notebook quiet (init 0)) \<and>
   position (Fn Pybamm ''Mesh'') (trace (final (notebook quiet (init 0))))
     < position (Method Pybamm ''process_model'') (trace (final (notebook quiet (init 0)))) \<and>
   position (Method Pybamm ''process_model'') (trace (final (notebook quiet (init 0))))
     < position (Method Pybamm ''solve'') (trace (final (notebook quiet (init 0)))) \<and>
   map callee (drop (Suc (position (Method Pybamm ''solve'')
       (trace (final (notebook quiet (init 0)))))) (trace (final (notebook quiet (init 0))))) =
     post_calls @ plot_calls"
  using quiet_completes pipeline_order [OF quiet_completes] by auto







text \<open>
  Claim C9: \<open>model.initial_conditions\<close> maps \<open>c\<close> to \<open>Scalar(1)\<close>, an expression that
  mentions no variable and no spatial variable and denotes the constant 1 whatever the
  operators and the values of the variables are.
\<close>

theorem initial_condition_is_uniform:
  "case define_model (init w) of
     Done (model, c, N) s \<Rightarrow>
       item (attr s model ''initial_conditions'') (PSym c) = Some (PSym (Scalar 1)) \<and>
       mentions (Scalar 1) = [] \<and>
       denote gr dv cst env (Scalar 1) = cst 1
   | Raised e s \<Rightarrow> False"
  by (subst define_model_value) (simp add: attr_def item_def model_object_def)

text \<open>
  Claim C10: the output variable \<open>"Flux"\<close> is the expression \<open>N = -grad(c)\<close>, whose meaning
  is minus the gradient of the meaning of \<open>c\<close>, and \<open>"Concentration"\<close> is \<open>c\<close> itself.
\<close>

theorem flux_is_minus_gradient:
  "case define_model (init w) of
     Done (model, c, N) s \<Rightarrow>
       N = Negate (Gradient c) \<and>
       item (attr s model ''variables'') (PStr ''Flux'') = Some (PSym N) \<and>
       item (attr s model ''variables'') (PStr ''Concentration'') = Some (PSym c) \<and>
       denote gr dv cst env N = - gr (denote gr dv cst env c)
   | Raised e s \<Rightarrow> False"
  by (subst define_model_value) (simp add: attr_def item_def model_object_def flux_def)

end
